theory Spec2Isabelle
  imports Main "HOL-Library.Word"
begin

section \<open>The filesystem layer of file.hpp\<close>

text \<open>
  The header \<^verbatim>\<open>firmware/application/file.hpp\<close> declares the filesystem
  layer of the firmware: the error value, paths, directory entries, the directory
  iterator, and the class \<^verbatim>\<open>File\<close> with its \<^verbatim>\<open>Result\<close> template.
  Every definition below names the lines of the header it embeds.
\<close>

subsection \<open>Scalar types, errors and paths\<close>

type_synonym u8 = "8 word"
type_synonym u16 = "16 word"
type_synonym u32 = "32 word"
type_synonym u64 = "64 word"

text \<open>
  \<^verbatim>\<open>struct filesystem_error\<close> (lines 39-65): one private member
  \<^verbatim>\<open>uint32_t err\<close>, set by the constructors (here the one from a status code,
  lines 45-55) and read by \<^verbatim>\<open>code()\<close>.
\<close>

record filesystem_error =
  err :: u32

definition filesystem_error_of :: "u32 \<Rightarrow> filesystem_error" where
  "filesystem_error_of other_error = \<lparr>err = other_error\<rparr>"

definition code :: "filesystem_error \<Rightarrow> u32" where
  "code e = err e"

text \<open>
  \<^verbatim>\<open>using path = std::u16string\<close> (line 67): a sequence of 16-bit code units.
  \<^verbatim>\<open>File::Size\<close> and \<^verbatim>\<open>File::Offset\<close> are \<^verbatim>\<open>uint64_t\<close> (lines 139-140).
\<close>

type_synonym path = "u16 list"
type_synonym Size = u64
type_synonym Offset = u64

subsection \<open>File::Result\<close>

text \<open>
  \<^verbatim>\<open>template<typename T> struct Result\<close> (lines 143-191): the discriminant
  \<^verbatim>\<open>type\<close> and an anonymous union of \<^verbatim>\<open>value_\<close> and
  \<^verbatim>\<open>error_\<close> (here \<open>value_m\<close> and \<open>error_m\<close>).
  The union is the datatype \<open>Result_union\<close>: its constructor is the member that
  was written last, the live one. Reading the other member is undefined in C++; the
  accessors below return \<open>None\<close> there.
\<close>

datatype Type = Success | Error

datatype 'a Result_union = value_m 'a | error_m filesystem_error

record 'a Result =
  type :: Type
  storage :: "'a Result_union"

text \<open>The two constructors (lines 172-184); the default constructor is deleted (line 170).\<close>

definition Result_of_value :: "'a \<Rightarrow> 'a Result" where
  "Result_of_value v = \<lparr>type = Success, storage = value_m v\<rparr>"

definition Result_of_error :: "filesystem_error \<Rightarrow> 'a Result" where
  "Result_of_error e = \<lparr>type = Error, storage = error_m e\<rparr>"

definition is_ok :: "'a Result \<Rightarrow> bool" where
  "is_ok r = (type r = Success)"

definition is_error :: "'a Result \<Rightarrow> bool" where
  "is_error r = (type r = Error)"

definition Result_value :: "'a Result \<Rightarrow> 'a option" where
  "Result_value r = (case storage r of value_m v \<Rightarrow> Some v | error_m e \<Rightarrow> None)"

definition Result_error :: "'a Result \<Rightarrow> filesystem_error option" where
  "Result_error r = (case storage r of value_m v \<Rightarrow> None | error_m e \<Rightarrow> Some e)"

text \<open>
  Which member of the union is live, and which member the destructor (lines 186-190)
  and the discriminant take to be live.
\<close>

definition live :: "'a Result \<Rightarrow> Type" where
  "live r = (case storage r of value_m v \<Rightarrow> Success | error_m e \<Rightarrow> Error)"

subsection \<open>directory_iterator\<close>

text \<open>
  \<^verbatim>\<open>class directory_iterator\<close> (lines 89-121) has one member,
  \<^verbatim>\<open>std::shared_ptr<Impl> impl\<close>: null, or the address of the shared
  \<^verbatim>\<open>Impl\<close> object. Copying an iterator copies the pointer.
\<close>

type_synonym addr = nat

record directory_iterator =
  impl :: "addr option"

text \<open>The default constructor (line 110) leaves \<^verbatim>\<open>impl\<close> null.\<close>

definition directory_iterator_default :: directory_iterator where
  "directory_iterator_default = \<lparr>impl = None\<rparr>"

text \<open>\<^verbatim>\<open>begin\<close> and \<^verbatim>\<open>end\<close> (lines 123-124).\<close>

definition begin_iter :: "directory_iterator \<Rightarrow> directory_iterator" where
  "begin_iter iter = iter"

definition end_iter :: "directory_iterator \<Rightarrow> directory_iterator" where
  "end_iter iter = directory_iterator_default"

text \<open>\<^verbatim>\<open>operator!=\<close> (line 126) compares the two shared pointers.\<close>

definition operator_neq :: "directory_iterator \<Rightarrow> directory_iterator \<Rightarrow> bool" where
  "operator_neq lhs rhs = (impl lhs \<noteq> impl rhs)"

subsection \<open>Directory entries and the shared cursor\<close>

text \<open>
  \<^verbatim>\<open>struct directory_entry : public FILINFO\<close> (lines 81-87). FILINFO is the
  driver's record (ff.h); the header reads its members \<^verbatim>\<open>fattrib\<close> and
  \<^verbatim>\<open>fname\<close>, and the entry has a size.
\<close>

record directory_entry =
  fsize :: u32
  fattrib :: u8
  fname :: path

definition status :: "directory_entry \<Rightarrow> u8" where
  "status e = fattrib e"

definition entry_path :: "directory_entry \<Rightarrow> path" where
  "entry_path e = fname e"

text \<open>
  \<^verbatim>\<open>struct Impl\<close> (lines 90-97): the driver's directory handle and the one
  entry storage. The handle \<^verbatim>\<open>DIR dir\<close> is the list of the matching entries
  the walk has still to deliver. Impl objects live in a heap, so that two iterators
  holding the same address share one Impl.
\<close>

record Impl =
  dir :: "directory_entry list"
  filinfo :: directory_entry

type_synonym heap = "addr \<Rightarrow> Impl option"

text \<open>
  \<^verbatim>\<open>operator*\<close> (lines 117-120) returns \<^verbatim>\<open>impl->filinfo\<close>; with a null
  \<^verbatim>\<open>impl\<close> there is nothing to return. The implicit copy constructor copies
  the shared pointer.
\<close>

definition operator_deref :: "directory_iterator \<Rightarrow> heap \<Rightarrow> directory_entry option" where
  "operator_deref it h = (case impl it of None \<Rightarrow> None | Some p \<Rightarrow> map_option filinfo (h p))"

definition copy_iter :: "directory_iterator \<Rightarrow> directory_iterator" where
  "copy_iter it = \<lparr>impl = impl it\<rparr>"

text \<open>
  Modelled from the spec: the driver's read-next call, which is not in the header. It
  delivers the next matching entry and moves the handle past it; after the last entry
  it delivers \<open>no_entry\<close>, an entry with an empty name.
\<close>

definition no_entry :: directory_entry where
  "no_entry = \<lparr>fsize = 0, fattrib = 0, fname = []\<rparr>"

definition find_next :: "directory_entry list \<Rightarrow> directory_entry list \<times> directory_entry" where
  "find_next es = (case es of [] \<Rightarrow> ([], no_entry) | e # rest \<Rightarrow> (rest, e))"

text \<open>
  Modelled from the spec: the body of \<^verbatim>\<open>operator++\<close> (declared at line 115)
  is not in the header. The spec (4.3): the advance fetches the next matching entry
  into the shared cursor storage, overwriting the previous entry's storage; reaching
  the last entry transitions the iterator to the end state. The entry storage is
  overwritten on each advance (spec 3). Advancing a null iterator is a contract
  violation: \<open>None\<close>.
\<close>

definition operator_inc ::
  "directory_iterator \<Rightarrow> heap \<Rightarrow> (directory_iterator \<times> heap) option" where
  "operator_inc it h =
     (case impl it of
        None \<Rightarrow> None
      | Some p \<Rightarrow>
          (case h p of
             None \<Rightarrow> None
           | Some i \<Rightarrow>
               (let (rest, e) = find_next (dir i);
                    h' = h(p \<mapsto> \<lparr>dir = rest, filinfo = e\<rparr>)
                in if dir i = [] then Some (it\<lparr>impl := None\<rparr>, h') else Some (it, h'))))"

text \<open>
  Modelled from the spec: the body of the constructor from a directory path and a
  wildcard filter (declared at line 111) is not in the header. The spec (4.3): it opens
  the directory handle and pre-fetches the first matching entry, or becomes the end
  state if the directory is empty or the path is invalid. \<open>listing\<close> is what the
  driver finds at the path (\<open>None\<close>: the path is invalid), \<open>wild\<close> the filter,
  \<open>p\<close> the address of the new Impl.
\<close>

definition directory_iterator_open ::
  "addr \<Rightarrow> directory_entry list option \<Rightarrow> (path \<Rightarrow> bool) \<Rightarrow> heap
     \<Rightarrow> directory_iterator \<times> heap" where
  "directory_iterator_open p listing wild h =
     (case listing of
        None \<Rightarrow> (\<lparr>impl = None\<rparr>, h)
      | Some es \<Rightarrow>
          (case filter (\<lambda>e. wild (fname e)) es of
             [] \<Rightarrow> (\<lparr>impl = None\<rparr>, h)
           | e # rest \<Rightarrow> (\<lparr>impl = Some p\<rparr>, h(p \<mapsto> \<lparr>dir = rest, filinfo = e\<rparr>))))"

subsection \<open>The sequential filename generator\<close>

text \<open>
  A \<^verbatim>\<open>u"..."\<close> literal: the code units of its characters. The capture view
  (capture_app.hpp, line 92) names its files with the pattern \<^verbatim>\<open>u"BBD_????"\<close>:
  the wildcard is the question mark, code unit 63.
\<close>

definition u16string :: "string \<Rightarrow> path" where
  "u16string s = map (\<lambda>c. of_nat (of_char c)) s"

definition wildcard :: u16 where
  "wildcard = 63"

text \<open>
  The body of \<^verbatim>\<open>next_filename_stem_matching_pattern\<close> (declared at line 135)
  is not in the header; the definitions from here to the end of this subsection follow
  the six steps of the spec (4.5), one group of definitions for each step.

  Modelled from the spec: step 1, the split of the pattern into the literal prefix, the
  width of the wildcard field and the literal suffix. The field is the first run of
  wildcards.
\<close>

definition pattern_prefix :: "path \<Rightarrow> path" where
  "pattern_prefix p = takeWhile (\<lambda>c. c \<noteq> wildcard) p"

definition field_width :: "path \<Rightarrow> nat" where
  "field_width p =
     length (takeWhile (\<lambda>c. c = wildcard) (dropWhile (\<lambda>c. c \<noteq> wildcard) p))"

definition pattern_suffix :: "path \<Rightarrow> path" where
  "pattern_suffix p = dropWhile (\<lambda>c. c = wildcard) (dropWhile (\<lambda>c. c \<noteq> wildcard) p)"

text \<open>
  Modelled from the spec: step 2, the filter. It keeps the names of the pattern's
  length that agree with the pattern at every position that is not a wildcard.
\<close>

definition matches_pattern :: "path \<Rightarrow> path \<Rightarrow> bool" where
  "matches_pattern p name = list_all2 (\<lambda>pc c. pc = wildcard \<or> pc = c) p name"

text \<open>
  Modelled from the spec: step 3, the characters of a name at the wildcard positions,
  read as an unsigned decimal number. A field with a character that is not a decimal
  digit gives no number, and neither does a name the filter rejects.
\<close>

definition wildcard_field :: "path \<Rightarrow> path \<Rightarrow> path" where
  "wildcard_field p name = take (field_width p) (drop (length (pattern_prefix p)) name)"

definition is_digit :: "u16 \<Rightarrow> bool" where
  "is_digit c = (48 \<le> c \<and> c \<le> 57)"

definition digit_value :: "u16 \<Rightarrow> nat" where
  "digit_value c = unat c - 48"

definition parse_decimal :: "path \<Rightarrow> nat" where
  "parse_decimal cs = foldl (\<lambda>acc c. 10 * acc + digit_value c) 0 cs"

definition parse_field :: "path \<Rightarrow> nat option" where
  "parse_field cs = (if list_all is_digit cs then Some (parse_decimal cs) else None)"

definition entry_value :: "path \<Rightarrow> path \<Rightarrow> nat option" where
  "entry_value p name =
     (if matches_pattern p name then parse_field (wildcard_field p name) else None)"

definition parsed_values :: "path \<Rightarrow> path list \<Rightarrow> nat list" where
  "parsed_values p entries = List.map_filter (entry_value p) entries"

text \<open>
  Modelled from the spec: step 4, the maximum seen, plus one; zero when no entry gave a
  number.
\<close>

definition next_value :: "nat list \<Rightarrow> nat" where
  "next_value vs = (if vs = [] then 0 else fold max vs 0 + 1)"

text \<open>
  Modelled from the spec: step 5, the number written in \<open>w\<close> decimal digits,
  zero-padded.
\<close>

fun to_decimal :: "nat \<Rightarrow> nat \<Rightarrow> path" where
  "to_decimal 0 n = []"
| "to_decimal (Suc w) n = to_decimal w (n div 10) @ [of_nat (48 + n mod 10)]"

text \<open>
  Modelled from the spec: the generator itself, steps 1 to 6. The directory is a
  parameter: the names of its entries, in the driver's order. The function returns a
  \<^verbatim>\<open>std::filesystem::path\<close>, as its declaration (line 135) says. A next value
  that does not fit the field exhausts the namespace (step 6); the function has a path
  to return then too, and neither the header nor the spec says which: it is the
  parameter \<open>exhausted\<close>.
\<close>

definition next_filename_stem_matching_pattern ::
  "path \<Rightarrow> path list \<Rightarrow> path \<Rightarrow> path" where
  "next_filename_stem_matching_pattern p entries exhausted =
     (let n = next_value (parsed_values p entries); w = field_width p
      in if 10 ^ w \<le> n then exhausted
         else pattern_prefix p @ to_decimal w n @ pattern_suffix p)"

subsection \<open>The operations of File over the driver\<close>

text \<open>
  Modelled from the spec: the driver (spec 6), which is not among the sources. Each of
  its calls returns a status code from a fixed enumeration, one of which is ok; the
  header names that code \<^verbatim>\<open>FR_OK\<close> (line 41). A driver is its ok code and its
  calls, each a function of the driver's state that returns the status code, what the
  call delivers, and the new state. The three ways to open a file (spec 4.2) are the
  modes of one call, as the private member \<^verbatim>\<open>open_fatfs\<close> (line 223) takes a
  mode.
\<close>

type_synonym FRESULT = u32

datatype open_mode = mode_open | mode_append | mode_create

record 'd driver =
  FR_OK :: FRESULT
  driver_open :: "path \<Rightarrow> open_mode \<Rightarrow> 'd \<Rightarrow> FRESULT \<times> 'd"
  driver_read :: "Size \<Rightarrow> 'd \<Rightarrow> FRESULT \<times> u8 list \<times> 'd"
  driver_write :: "u8 list \<Rightarrow> Size \<Rightarrow> 'd \<Rightarrow> FRESULT \<times> Size \<times> 'd"
  driver_seek :: "Offset \<Rightarrow> 'd \<Rightarrow> FRESULT \<times> Offset \<times> 'd"
  driver_sync :: "'d \<Rightarrow> FRESULT \<times> 'd"

text \<open>
  Modelled from the spec: the bodies of \<^verbatim>\<open>open_fatfs\<close>, \<^verbatim>\<open>open\<close>,
  \<^verbatim>\<open>append\<close> and \<^verbatim>\<open>create\<close> (declared at lines 201-203 and 223) are
  not in the header. The spec (4.2): every fallible call surfaces a FilesystemError
  carrying the driver status code, and no operation retries: the driver is called
  once. The result is the declared \<^verbatim>\<open>Optional<Error>\<close>, empty when the driver
  says ok.
\<close>

definition open_fatfs ::
  "'d driver \<Rightarrow> path \<Rightarrow> open_mode \<Rightarrow> 'd \<Rightarrow> filesystem_error option \<times> 'd" where
  "open_fatfs drv filename mode d =
     (case driver_open drv filename mode d of
        (r, d') \<Rightarrow> (if r = FR_OK drv then None else Some (filesystem_error_of r), d'))"

definition File_open :: "'d driver \<Rightarrow> path \<Rightarrow> 'd \<Rightarrow> filesystem_error option \<times> 'd" where
  "File_open drv filename d = open_fatfs drv filename mode_open d"

definition File_append :: "'d driver \<Rightarrow> path \<Rightarrow> 'd \<Rightarrow> filesystem_error option \<times> 'd" where
  "File_append drv filename d = open_fatfs drv filename mode_append d"

definition File_create :: "'d driver \<Rightarrow> path \<Rightarrow> 'd \<Rightarrow> filesystem_error option \<times> 'd" where
  "File_create drv filename d = open_fatfs drv filename mode_create d"

text \<open>
  Modelled from the spec: the bodies of \<^verbatim>\<open>read\<close>, of the pointer overload of
  \<^verbatim>\<open>write\<close> and of \<^verbatim>\<open>seek\<close> (declared at lines 205-208) are not in
  the header. The spec (4.2): a read returns the actual bytes read, a write the actual
  bytes written (a short write is a success with the short count), a seek the resulting
  offset; a failure of the driver yields the error with its status code. The result is
  the declared Result.
\<close>

definition File_read :: "'d driver \<Rightarrow> Size \<Rightarrow> 'd \<Rightarrow> Size Result \<times> u8 list \<times> 'd" where
  "File_read drv bytes_to_read d =
     (case driver_read drv bytes_to_read d of
        (r, data, d') \<Rightarrow>
          (if r = FR_OK drv then Result_of_value (of_nat (length data))
           else Result_of_error (filesystem_error_of r), data, d'))"

definition File_write :: "'d driver \<Rightarrow> u8 list \<Rightarrow> Size \<Rightarrow> 'd \<Rightarrow> Size Result \<times> 'd" where
  "File_write drv data bytes_to_write d =
     (case driver_write drv data bytes_to_write d of
        (r, written, d') \<Rightarrow>
          (if r = FR_OK drv then Result_of_value written
           else Result_of_error (filesystem_error_of r), d'))"

definition File_seek :: "'d driver \<Rightarrow> Offset \<Rightarrow> 'd \<Rightarrow> Offset Result \<times> 'd" where
  "File_seek drv new_offset d =
     (case driver_seek drv new_offset d of
        (r, at, d') \<Rightarrow>
          (if r = FR_OK drv then Result_of_value at
           else Result_of_error (filesystem_error_of r), d'))"

text \<open>
  Modelled from the spec: the bodies of \<^verbatim>\<open>write_line\<close> and \<^verbatim>\<open>sync\<close>
  (declared at lines 215 and 218) are not in the header. The spec (4.2): write_line
  appends the text followed by a line terminator and fails if the underlying write
  fails; sync forces buffered writes to the medium. The line terminator, which the spec
  does not spell, is the parameter \<open>terminator\<close>.
\<close>

definition File_write_line ::
  "'d driver \<Rightarrow> u8 list \<Rightarrow> u8 list \<Rightarrow> 'd \<Rightarrow> filesystem_error option \<times> 'd" where
  "File_write_line drv terminator s d =
     (case File_write drv (s @ terminator) (of_nat (length (s @ terminator))) d of
        (res, d') \<Rightarrow> (if is_error res then Result_error res else None, d'))"

definition File_sync :: "'d driver \<Rightarrow> 'd \<Rightarrow> filesystem_error option \<times> 'd" where
  "File_sync drv d =
     (case driver_sync drv d of
        (r, d') \<Rightarrow> (if r = FR_OK drv then None else Some (filesystem_error_of r), d'))"

subsection \<open>The declared return types\<close>

text \<open>
  \<^verbatim>\<open>struct space_info\<close> (lines 73-79): three byte counts and nothing else.
\<close>

record space_info =
  capacity :: u64
  free :: u64
  available :: u64

text \<open>
  The operations the header declares, with the return type each declaration gives:
  \<^verbatim>\<open>space\<close> (line 130), \<^verbatim>\<open>next_filename_stem_matching_pattern\<close> (line 135),
  and the members of \<^verbatim>\<open>File\<close> (lines 201-218). The header notes
  \<^verbatim>\<open>TODO: Return Result<>\<close> above \<^verbatim>\<open>open\<close>, \<^verbatim>\<open>append\<close>,
  \<^verbatim>\<open>create\<close> and above \<^verbatim>\<open>sync\<close>.
\<close>

datatype operation = op_open | op_append | op_create | op_read | op_write | op_seek
  | op_write_line | op_sync | op_space | op_next_filename_stem_matching_pattern

datatype return_type = Optional_Error | Result_Size | Result_Offset | Space_info | Path

fun declared_return_type :: "operation \<Rightarrow> return_type" where
  "declared_return_type op_open = Optional_Error"
| "declared_return_type op_append = Optional_Error"
| "declared_return_type op_create = Optional_Error"
| "declared_return_type op_read = Result_Size"
| "declared_return_type op_write = Result_Size"
| "declared_return_type op_seek = Result_Offset"
| "declared_return_type op_write_line = Optional_Error"
| "declared_return_type op_sync = Optional_Error"
| "declared_return_type op_space = Space_info"
| "declared_return_type op_next_filename_stem_matching_pattern = Path"

text \<open>
  The values of each return type, and the error a caller can read from a returned
  value: the \<^verbatim>\<open>Error\<close> an \<^verbatim>\<open>Optional<Error>\<close> holds, the error of a
  Result that is an error; a \<^verbatim>\<open>space_info\<close> and a \<^verbatim>\<open>path\<close> have no
  member for one.
\<close>

datatype return_value = Ret_Optional "filesystem_error option" | Ret_Result_Size "Size Result"
  | Ret_Result_Offset "Offset Result" | Ret_space_info space_info | Ret_path path

fun type_of_value :: "return_value \<Rightarrow> return_type" where
  "type_of_value (Ret_Optional e) = Optional_Error"
| "type_of_value (Ret_Result_Size r) = Result_Size"
| "type_of_value (Ret_Result_Offset r) = Result_Offset"
| "type_of_value (Ret_space_info s) = Space_info"
| "type_of_value (Ret_path p) = Path"

fun reported_error :: "return_value \<Rightarrow> filesystem_error option" where
  "reported_error (Ret_Optional e) = e"
| "reported_error (Ret_Result_Size r) = (if is_error r then Result_error r else None)"
| "reported_error (Ret_Result_Offset r) = (if is_error r then Result_error r else None)"
| "reported_error (Ret_space_info s) = None"
| "reported_error (Ret_path p) = None"

definition is_Result_type :: "return_type \<Rightarrow> bool" where
  "is_Result_type t = (t = Result_Size \<or> t = Result_Offset)"

subsection \<open>Copying and moving a File\<close>

text \<open>
  The special member functions \<^verbatim>\<open>class File\<close> declares (lines 193-198): a
  default constructor and a destructor, a copy constructor and a copy assignment
  operator that are deleted, and no move constructor or move assignment operator.
\<close>

datatype special_member = default_constructor | destructor | copy_constructor
  | copy_assignment | move_constructor | move_assignment

datatype member_declaration = user_provided | deleted | not_declared

fun File_declares :: "special_member \<Rightarrow> member_declaration" where
  "File_declares default_constructor = user_provided"
| "File_declares destructor = user_provided"
| "File_declares copy_constructor = deleted"
| "File_declares copy_assignment = deleted"
| "File_declares move_constructor = not_declared"
| "File_declares move_assignment = not_declared"

text \<open>
  The rules of C++ for a class \<open>c\<close>. A move constructor (a move assignment operator)
  is declared implicitly only if the class declares no copy constructor, no copy
  assignment operator, no move assignment operator (no move constructor) and no
  destructor; a deleted declaration is a declaration. An implicit copy operation is
  deleted if the class declares a move operation.
\<close>

definition user_declared :: "(special_member \<Rightarrow> member_declaration) \<Rightarrow> special_member \<Rightarrow> bool" where
  "user_declared c m = (c m \<noteq> not_declared)"

definition implicit_move :: "(special_member \<Rightarrow> member_declaration) \<Rightarrow> bool" where
  "implicit_move c =
     (\<not> user_declared c copy_constructor \<and> \<not> user_declared c copy_assignment
      \<and> \<not> user_declared c move_constructor \<and> \<not> user_declared c move_assignment
      \<and> \<not> user_declared c destructor)"

definition implicit_copy :: "(special_member \<Rightarrow> member_declaration) \<Rightarrow> bool" where
  "implicit_copy c =
     (\<not> user_declared c move_constructor \<and> \<not> user_declared c move_assignment)"

text \<open>
  Whether the expression is well-formed: a copy uses the copy operation; a move uses
  the move operation if one is declared, and otherwise falls back on the copy
  operation, which accepts an rvalue.
\<close>

definition copy_constructible :: "(special_member \<Rightarrow> member_declaration) \<Rightarrow> bool" where
  "copy_constructible c =
     (case c copy_constructor of
        user_provided \<Rightarrow> True | deleted \<Rightarrow> False | not_declared \<Rightarrow> implicit_copy c)"

definition copy_assignable :: "(special_member \<Rightarrow> member_declaration) \<Rightarrow> bool" where
  "copy_assignable c =
     (case c copy_assignment of
        user_provided \<Rightarrow> True | deleted \<Rightarrow> False | not_declared \<Rightarrow> implicit_copy c)"

definition move_constructible :: "(special_member \<Rightarrow> member_declaration) \<Rightarrow> bool" where
  "move_constructible c =
     (case c move_constructor of
        user_provided \<Rightarrow> True | deleted \<Rightarrow> False
      | not_declared \<Rightarrow> implicit_move c \<or> copy_constructible c)"

definition move_assignable :: "(special_member \<Rightarrow> member_declaration) \<Rightarrow> bool" where
  "move_assignable c =
     (case c move_assignment of
        user_provided \<Rightarrow> True | deleted \<Rightarrow> False
      | not_declared \<Rightarrow> implicit_move c \<or> copy_assignable c)"

text \<open>
  The ways to make an object of the class: from nothing (the default constructor,
  implicit only if the class declares no constructor), from an lvalue of the class (a
  copy) and from an rvalue of the class (a move).
\<close>

datatype construction = from_nothing | from_lvalue | from_rvalue

definition constructible :: "(special_member \<Rightarrow> member_declaration) \<Rightarrow> construction \<Rightarrow> bool" where
  "constructible c k =
     (case k of
        from_nothing \<Rightarrow>
          (case c default_constructor of
             user_provided \<Rightarrow> True | deleted \<Rightarrow> False
           | not_declared \<Rightarrow>
               \<not> user_declared c copy_constructor \<and> \<not> user_declared c move_constructor)
      | from_lvalue \<Rightarrow> copy_constructible c
      | from_rvalue \<Rightarrow> move_constructible c)"

subsection \<open>File::write on an array\<close>

text \<open>
  The array overload of \<^verbatim>\<open>File::write\<close> (lines 210-213) calls the pointer
  overload (line 206), whose body is not in the header: it is the parameter \<open>wr\<close>,
  a function of the handle state, the bytes at the pointer and the byte count. A
  \<^verbatim>\<open>std::array<uint8_t, N>\<close> is the list of its \<open>N\<close> elements;
  \<^verbatim>\<open>data()\<close> points at them.
\<close>

definition array_data :: "u8 list \<Rightarrow> u8 list" where
  "array_data a = a"

definition array_N :: "u8 list \<Rightarrow> Size" where
  "array_N a = of_nat (length a)"

definition write_array :: "('f \<Rightarrow> u8 list \<Rightarrow> Size \<Rightarrow> 'r) \<Rightarrow> 'f \<Rightarrow> u8 list \<Rightarrow> 'r" where
  "write_array wr f a = wr f (array_data a) (array_N a)"

section \<open>Theorems\<close>

subsection \<open>Result holds exactly one variant\<close>

lemma Type_two_values: "(t = Success) = (t \<noteq> Error)"
  by (cases t) simp_all

text \<open>
  C5. A Result built from a success value is ok, is not an error, and its value is that
  value; a Result built from an error is an error, is not ok, and its error is that
  error. In both, the live member of the union is the one the discriminant names. Every
  Result is ok or an error and never both: the discriminant has two values only, and
  there is no third constructor.
\<close>

theorem Result_exactly_one_variant:
  "is_ok (Result_of_value v) \<and> \<not> is_error (Result_of_value v)
   \<and> Result_value (Result_of_value v) = Some v
   \<and> live (Result_of_value v) = type (Result_of_value v)
   \<and> is_error (Result_of_error e :: 'a Result) \<and> \<not> is_ok (Result_of_error e :: 'a Result)
   \<and> Result_error (Result_of_error e :: 'a Result) = Some e
   \<and> live (Result_of_error e :: 'a Result) = type (Result_of_error e :: 'a Result)
   \<and> (\<forall>r :: 'a Result. is_ok r = (\<not> is_error r))"
  by (simp add: is_ok_def is_error_def Result_value_def Result_error_def live_def
      Result_of_value_def Result_of_error_def Type_two_values)

subsection \<open>Equality of directory iterators\<close>

text \<open>
  C7. Two directory iterators compare equal (\<^verbatim>\<open>!=\<close> is false) exactly when
  both are null, or both hold the address of the same Impl object. A default-constructed
  iterator equals what \<^verbatim>\<open>end\<close> returns, for every argument of \<^verbatim>\<open>end\<close>.
\<close>

theorem directory_iterator_equality:
  "(\<not> operator_neq a b) =
     ((impl a = None \<and> impl b = None) \<or> (\<exists>p. impl a = Some p \<and> impl b = Some p))
   \<and> \<not> operator_neq directory_iterator_default (end_iter it)"
  by (cases "impl a"; cases "impl b")
     (auto simp add: operator_neq_def end_iter_def)

subsection \<open>The array overload of write\<close>

text \<open>
  C10. For every array \<open>a\<close> of \<open>N\<close> bytes and every handle state, writing the
  array gives what the pointer overload gives for the array's elements and the count
  \<open>N\<close>, whatever the pointer overload does.
\<close>

theorem write_array_is_write_data_N:
  "write_array wr f a = wr f a (of_nat (length a))"
  by (simp add: write_array_def array_data_def array_N_def)

subsection \<open>Decimal fields\<close>

lemma unat_digit: "d < 10 \<Longrightarrow> unat (of_nat (48 + d) :: u16) = 48 + d"
  by (subst unat_of_nat) simp

lemma is_digit_of_nat: "d < 10 \<Longrightarrow> is_digit (of_nat (48 + d))"
  unfolding is_digit_def word_le_nat_alt
  by (subst unat_digit, assumption)+ simp

lemma digit_value_of_nat: "d < 10 \<Longrightarrow> digit_value (of_nat (48 + d)) = d"
  unfolding digit_value_def
  by (subst unat_digit) simp_all

lemma to_decimal_length: "length (to_decimal w n) = w"
  by (induction w arbitrary: n) simp_all

lemma to_decimal_digits: "list_all is_digit (to_decimal w n)"
  by (induction w arbitrary: n) (simp_all del: of_nat_add add: is_digit_of_nat)

lemma to_decimal_zero: "to_decimal w 0 = replicate w 48"
  by (induction w) (simp_all add: replicate_append_same)

lemma parse_to_decimal: "n < 10 ^ w \<Longrightarrow> parse_decimal (to_decimal w n) = n"
proof (induction w arbitrary: n)
  case 0
  then show ?case by (simp add: parse_decimal_def)
next
  case (Suc w)
  have "n div 10 < 10 ^ w"
    using Suc.prems by (simp add: less_mult_imp_div_less)
  then have "parse_decimal (to_decimal w (n div 10)) = n div 10"
    by (rule Suc.IH)
  then show ?case
    by (simp del: of_nat_add add: parse_decimal_def digit_value_of_nat)
qed

subsection \<open>The pattern and the values read from a directory\<close>

lemma pattern_split:
  "p = pattern_prefix p @ replicate (field_width p) wildcard @ pattern_suffix p"
proof -
  let ?r = "dropWhile (\<lambda>c. c \<noteq> wildcard) p"
  have "takeWhile (\<lambda>c. c = wildcard) ?r = replicate (field_width p) wildcard"
    unfolding field_width_def
    by (rule replicate_length_same [symmetric]) (auto dest: set_takeWhileD)
  then have "?r = replicate (field_width p) wildcard @ pattern_suffix p"
    unfolding pattern_suffix_def by (metis takeWhile_dropWhile_id)
  then show ?thesis
    unfolding pattern_prefix_def by (metis takeWhile_dropWhile_id)
qed

lemma fold_max_Max:
  assumes "vs \<noteq> []"
  shows "fold max vs (0::nat) = Max (set vs)"
proof (cases vs)
  case Nil
  then show ?thesis using assms by simp
next
  case (Cons a list)
  have "fold max vs 0 = fold max list a" by (simp add: Cons)
  also have "\<dots> = Max (set (a # list))" by (rule Max.set_eq_fold [symmetric])
  finally show ?thesis by (simp only: Cons)
qed

lemma next_value_Max: "next_value vs = (if vs = [] then 0 else Max (set vs) + 1)"
  by (simp add: next_value_def fold_max_Max)

lemma no_match_no_values:
  "list_all (\<lambda>e. \<not> matches_pattern p e) entries \<Longrightarrow> parsed_values p entries = []"
  by (induction entries) (simp_all add: parsed_values_def map_filter_def entry_value_def)

subsection \<open>The next name\<close>

text \<open>
  C1. Let \<open>n\<close> be zero when no entry of the directory matches the pattern with a
  decimal field, and otherwise the maximum of the values read from the matching
  entries plus one. Step 5 of the spec writes \<open>n\<close> in the field's width, which it can
  only while \<open>n < 10 ^ width\<close>; the other case is step 6. There the generator returns
  the pattern with its wildcard field replaced by \<open>n\<close>, written in exactly \<open>width\<close>
  decimal digits that read back as \<open>n\<close>; for \<open>n = 0\<close> the field is all zeros. Over a
  directory with no matching entry the generator always returns the pattern with its
  field replaced by zeros.
\<close>

theorem next_filename_is_max_plus_one:
  assumes "n = (if parsed_values p entries = [] then 0
                else Max (set (parsed_values p entries)) + 1)"
    and "n < 10 ^ field_width p"
  shows "p = pattern_prefix p @ replicate (field_width p) wildcard @ pattern_suffix p
    \<and> next_filename_stem_matching_pattern p entries exhausted =
        pattern_prefix p @ to_decimal (field_width p) n @ pattern_suffix p
    \<and> length (to_decimal (field_width p) n) = field_width p
    \<and> list_all is_digit (to_decimal (field_width p) n)
    \<and> parse_decimal (to_decimal (field_width p) n) = n
    \<and> to_decimal (field_width p) 0 = replicate (field_width p) 48
    \<and> (list_all (\<lambda>e. \<not> matches_pattern p e) es \<longrightarrow>
         next_filename_stem_matching_pattern p es exhausted =
           pattern_prefix p @ replicate (field_width p) 48 @ pattern_suffix p)"
proof -
  have "list_all (\<lambda>e. \<not> matches_pattern p e) es \<longrightarrow>
         next_filename_stem_matching_pattern p es exhausted =
           pattern_prefix p @ replicate (field_width p) 48 @ pattern_suffix p"
    by (simp add: no_match_no_values next_filename_stem_matching_pattern_def next_value_def
        to_decimal_zero)
  moreover have "next_value (parsed_values p entries) = n"
    unfolding assms(1) by (rule next_value_Max)
  then have "next_filename_stem_matching_pattern p entries exhausted =
        pattern_prefix p @ to_decimal (field_width p) n @ pattern_suffix p"
    using assms(2) by (simp add: next_filename_stem_matching_pattern_def)
  moreover note pattern_split [of p] to_decimal_length to_decimal_digits
    parse_to_decimal [OF assms(2)] to_decimal_zero
  ultimately show ?thesis by blast
qed

text \<open>
  The examples of the spec: over \<open>NAME_0000\<close>, \<open>NAME_0003\<close>, \<open>NAME_0002\<close> the
  pattern \<open>NAME_????\<close> gives \<open>NAME_0004\<close>, and over the empty directory
  \<open>NAME_0000\<close>.
\<close>

theorem next_filename_is_max_plus_one_witness:
  "(\<forall>exhausted. next_filename_stem_matching_pattern (u16string ''NAME_????'')
     [u16string ''NAME_0000'', u16string ''NAME_0003'', u16string ''NAME_0002''] exhausted
     = u16string ''NAME_0004'')
   \<and> (\<forall>exhausted. next_filename_stem_matching_pattern (u16string ''NAME_????'') [] exhausted
     = u16string ''NAME_0000'')"
proof -
  let ?p = "u16string ''NAME_????''"
  let ?es = "[u16string ''NAME_0000'', u16string ''NAME_0003'', u16string ''NAME_0002'']"
  have max: "(4::nat) = (if parsed_values ?p ?es = [] then 0
                         else Max (set (parsed_values ?p ?es)) + 1)"
    by code_simp
  have fits: "(4::nat) < 10 ^ field_width ?p"
    by code_simp
  have name: "pattern_prefix ?p @ to_decimal (field_width ?p) 4 @ pattern_suffix ?p
      = u16string ''NAME_0004''"
    by code_simp
  have none: "(0::nat) = (if parsed_values ?p [] = [] then 0
                          else Max (set (parsed_values ?p [])) + 1)"
    by (simp add: parsed_values_def map_filter_def)
  have fits0: "(0::nat) < 10 ^ field_width ?p"
    by simp
  have name0: "pattern_prefix ?p @ to_decimal (field_width ?p) 0 @ pattern_suffix ?p
      = u16string ''NAME_0000''"
    by code_simp
  from next_filename_is_max_plus_one [OF max fits]
  have "\<And>exhausted. next_filename_stem_matching_pattern ?p ?es exhausted
      = u16string ''NAME_0004''"
    unfolding name by blast
  moreover from next_filename_is_max_plus_one [OF none fits0]
  have "\<And>exhausted. next_filename_stem_matching_pattern ?p [] exhausted
      = u16string ''NAME_0000''"
    unfolding name0 by blast
  ultimately show ?thesis by blast
qed

subsection \<open>Malformed entries\<close>

text \<open>
  C3. An entry whose characters at the wildcard positions are not all decimal digits
  gives no value, and the generator returns for a directory with that entry, wherever
  it stands, what it returns for the directory without it, also where the namespace is
  exhausted: the entry never changes the result.
\<close>

theorem malformed_entry_is_skipped:
  assumes "\<not> list_all is_digit (wildcard_field p e)"
  shows "entry_value p e = None
    \<and> parsed_values p (xs @ e # ys) = parsed_values p (xs @ ys)
    \<and> next_filename_stem_matching_pattern p (xs @ e # ys) =
        next_filename_stem_matching_pattern p (xs @ ys)"
proof -
  have none: "entry_value p e = None"
    using assms by (simp add: entry_value_def parse_field_def)
  then have same: "parsed_values p (xs @ e # ys) = parsed_values p (xs @ ys)"
    by (simp add: parsed_values_def map_filter_def)
  have "\<And>exhausted. next_filename_stem_matching_pattern p (xs @ e # ys) exhausted =
      next_filename_stem_matching_pattern p (xs @ ys) exhausted"
    by (simp add: next_filename_stem_matching_pattern_def same)
  then have "next_filename_stem_matching_pattern p (xs @ e # ys) =
      next_filename_stem_matching_pattern p (xs @ ys)"
    by (rule ext)
  with none same show ?thesis by simp
qed

text \<open>The example of the spec: \<open>NAME_abcd\<close> beside \<open>NAME_0007\<close>.\<close>

theorem malformed_entry_is_skipped_witness:
  "\<not> list_all is_digit (wildcard_field (u16string ''NAME_????'') (u16string ''NAME_abcd''))
   \<and> (\<forall>exhausted. next_filename_stem_matching_pattern (u16string ''NAME_????'')
         [u16string ''NAME_0007'', u16string ''NAME_abcd''] exhausted
           = u16string ''NAME_0008'')"
proof -
  let ?p = "u16string ''NAME_????''"
  have bad: "\<not> list_all is_digit (wildcard_field ?p (u16string ''NAME_abcd''))"
    by code_simp
  have nv: "next_value (parsed_values ?p [u16string ''NAME_0007'']) = 8"
    by code_simp
  have fits: "\<not> 10 ^ field_width ?p \<le> (8::nat)"
    by code_simp
  have name: "pattern_prefix ?p @ to_decimal (field_width ?p) 8 @ pattern_suffix ?p
      = u16string ''NAME_0008''"
    by code_simp
  have without: "\<And>exhausted. next_filename_stem_matching_pattern ?p
      ([u16string ''NAME_0007''] @ []) exhausted = u16string ''NAME_0008''"
    unfolding next_filename_stem_matching_pattern_def append_Nil2 nv Let_def
    using fits name by simp
  from malformed_entry_is_skipped [OF bad, of "[u16string ''NAME_0007'']" "[]"] bad without
  show ?thesis by simp
qed

subsection \<open>The shared cursor\<close>

text \<open>
  C8. Let \<open>a\<close> and \<open>b\<close> be iterators that hold the address of the same Impl, as
  copies do. Advancing \<open>a\<close> succeeds, and afterwards \<open>b\<close> and every copy of \<open>b\<close>
  read the entry the advance fetched; while entries remained, \<open>a\<close> reads it too. The
  handle has moved forward by one entry: what is left to deliver is the tail of what
  was left before, and no operation puts an entry back. The result is the same
  whatever the storage held before the advance: the previous entry is gone.
\<close>

theorem copies_share_one_cursor:
  assumes "impl a = Some p" and "impl b = impl a" and "h p = Some i"
  shows "\<exists>a' h'. operator_inc a h = Some (a', h')
      \<and> operator_deref b h' = Some (snd (find_next (dir i)))
      \<and> operator_deref (copy_iter b) h' = operator_deref b h'
      \<and> (impl a' = impl a \<or> impl a' = None)
      \<and> (dir i \<noteq> [] \<longrightarrow> a' = a \<and> operator_deref a' h' = Some (hd (dir i)))
      \<and> map_option dir (h' p) = Some (tl (dir i))
      \<and> operator_inc a (h(p \<mapsto> i\<lparr>filinfo := x\<rparr>)) = Some (a', h')"
  using assms
  by (cases "dir i")
     (simp_all add: operator_inc_def operator_deref_def copy_iter_def find_next_def)

text \<open>
  A directory with the files \<open>A\<close> and \<open>B\<close> and a subdirectory, opened with the
  filter \<open>?\<close>: the iterator and its copy first read \<open>A\<close>; after the advance of the
  iterator, its copy reads \<open>B\<close>.
\<close>

theorem copies_share_one_cursor_witness:
  "\<exists>a h a' h'. directory_iterator_open 0
      (Some [\<lparr>fsize = 1, fattrib = 32, fname = u16string ''A''\<rparr>,
             \<lparr>fsize = 0, fattrib = 16, fname = u16string ''DIR''\<rparr>,
             \<lparr>fsize = 2, fattrib = 32, fname = u16string ''B''\<rparr>])
      (matches_pattern (u16string ''?'')) Map.empty = (a, h)
     \<and> operator_deref (copy_iter a) h
       = Some \<lparr>fsize = 1, fattrib = 32, fname = u16string ''A''\<rparr>
     \<and> operator_inc a h = Some (a', h')
     \<and> operator_deref (copy_iter a) h'
       = Some \<lparr>fsize = 2, fattrib = 32, fname = u16string ''B''\<rparr>
     \<and> operator_deref a' h' = Some \<lparr>fsize = 2, fattrib = 32, fname = u16string ''B''\<rparr>"
proof -
  let ?A = "\<lparr>fsize = 1, fattrib = 32, fname = u16string ''A''\<rparr>"
  let ?B = "\<lparr>fsize = 2, fattrib = 32, fname = u16string ''B''\<rparr>"
  let ?a = "\<lparr>impl = Some (0::nat)\<rparr>"
  let ?i = "\<lparr>dir = [?B], filinfo = ?A\<rparr>"
  have opened: "directory_iterator_open 0
      (Some [?A, \<lparr>fsize = 0, fattrib = 16, fname = u16string ''DIR''\<rparr>, ?B])
      (matches_pattern (u16string ''?'')) Map.empty = (?a, [0 \<mapsto> ?i])"
    by (simp add: directory_iterator_open_def matches_pattern_def u16string_def wildcard_def)
  have before: "operator_deref (copy_iter ?a) [0 \<mapsto> ?i] = Some ?A"
    by (simp add: operator_deref_def copy_iter_def)
  have a: "impl ?a = Some 0" by simp
  have b: "impl (copy_iter ?a) = impl ?a" by (simp add: copy_iter_def)
  have c: "[0 \<mapsto> ?i] 0 = Some ?i" by simp
  from copies_share_one_cursor [of ?a 0 "copy_iter ?a" "[0 \<mapsto> ?i]" ?i, OF a b c]
  have "\<exists>a' h'. operator_inc ?a [0 \<mapsto> ?i] = Some (a', h')
      \<and> operator_deref (copy_iter ?a) h' = Some ?B
      \<and> operator_deref a' h' = Some ?B"
    by (simp add: find_next_def) blast
  with opened before show ?thesis by blast
qed

subsection \<open>How failures reach the caller\<close>

lemma plain_value_reports_nothing:
  "type_of_value v = Space_info \<or> type_of_value v = Path \<Longrightarrow> reported_error v = None"
  by (cases v) simp_all

lemma Result_types: "is_Result_type (declared_return_type opn) =
    (opn = op_read \<or> opn = op_write \<or> opn = op_seek)"
  by (cases opn) (simp_all add: is_Result_type_def)

lemma error_Result_reports:
  "reported_error (Ret_Result_Size (Result_of_error e)) = Some e"
  "reported_error (Ret_Result_Offset (Result_of_error e)) = Some e"
  by (simp_all add: is_error_def Result_error_def Result_of_error_def)

lemma invalid_path_is_end:
  "directory_iterator_open p None wild h = (directory_iterator_default, h)"
  "directory_iterator_open p (Some []) wild h = (directory_iterator_default, h)"
  by (simp_all add: directory_iterator_open_def directory_iterator_default_def)

text \<open>
  C6, as amended. Every operation of the File Handle hands a failure of its driver call
  to its caller as a \<^verbatim>\<open>filesystem_error\<close> that carries the driver's status code,
  and leaves the driver in the state the one call left it in: \<^verbatim>\<open>open\<close>,
  \<^verbatim>\<open>append\<close>, \<^verbatim>\<open>create\<close>, \<^verbatim>\<open>read\<close>, \<^verbatim>\<open>write\<close>, \<^verbatim>\<open>seek\<close>,
  \<^verbatim>\<open>write_line\<close> and \<^verbatim>\<open>sync\<close>. Of the ten operations \<^verbatim>\<open>read\<close>,
  \<^verbatim>\<open>write\<close> and \<^verbatim>\<open>seek\<close>, and only they, return a Result, and a Result
  made from an error reports that error. What \<^verbatim>\<open>space\<close> and
  \<^verbatim>\<open>next_filename_stem_matching_pattern\<close> return can hold no error, and the
  directory iterator is the end state for an invalid path as for an empty directory.
\<close>

theorem File_operations_surface_failure:
  "(driver_open drv filename mode d = (r, d') \<and> r \<noteq> FR_OK drv \<longrightarrow>
      open_fatfs drv filename mode d = (Some (filesystem_error_of r), d'))
   \<and> File_open drv filename = open_fatfs drv filename mode_open
   \<and> File_append drv filename = open_fatfs drv filename mode_append
   \<and> File_create drv filename = open_fatfs drv filename mode_create
   \<and> (driver_read drv bytes_to_read d = (r, buffer, d') \<and> r \<noteq> FR_OK drv \<longrightarrow>
        File_read drv bytes_to_read d = (Result_of_error (filesystem_error_of r), buffer, d'))
   \<and> (driver_write drv bytes bytes_to_write d = (r, written, d') \<and> r \<noteq> FR_OK drv \<longrightarrow>
        File_write drv bytes bytes_to_write d = (Result_of_error (filesystem_error_of r), d'))
   \<and> (driver_seek drv new_offset d = (r, offset, d') \<and> r \<noteq> FR_OK drv \<longrightarrow>
        File_seek drv new_offset d = (Result_of_error (filesystem_error_of r), d'))
   \<and> (driver_write drv (s @ terminator) (of_nat (length (s @ terminator))) d = (r, written, d')
        \<and> r \<noteq> FR_OK drv \<longrightarrow>
        File_write_line drv terminator s d = (Some (filesystem_error_of r), d'))
   \<and> (driver_sync drv d = (r, d') \<and> r \<noteq> FR_OK drv \<longrightarrow>
        File_sync drv d = (Some (filesystem_error_of r), d'))
   \<and> code (filesystem_error_of r) = r
   \<and> reported_error (Ret_Result_Size (Result_of_error e)) = Some e
   \<and> reported_error (Ret_Result_Offset (Result_of_error e)) = Some e
   \<and> is_Result_type (declared_return_type opn) =
       (opn = op_read \<or> opn = op_write \<or> opn = op_seek)
   \<and> (\<nexists>v. type_of_value v = declared_return_type op_space \<and> reported_error v \<noteq> None)
   \<and> (\<nexists>v. type_of_value v = declared_return_type op_next_filename_stem_matching_pattern
          \<and> reported_error v \<noteq> None)
   \<and> directory_iterator_open p None wild h = (directory_iterator_default, h)
   \<and> directory_iterator_open p (Some []) wild h = (directory_iterator_default, h)"
proof -
  have opens: "driver_open drv filename mode d = (r, d') \<and> r \<noteq> FR_OK drv \<longrightarrow>
      open_fatfs drv filename mode d = (Some (filesystem_error_of r), d')"
    by (simp add: open_fatfs_def)
  have modes: "File_open drv filename = open_fatfs drv filename mode_open"
    "File_append drv filename = open_fatfs drv filename mode_append"
    "File_create drv filename = open_fatfs drv filename mode_create"
    by (rule ext, simp add: File_open_def File_append_def File_create_def)+
  have reads: "driver_read drv bytes_to_read d = (r, buffer, d') \<and> r \<noteq> FR_OK drv \<longrightarrow>
      File_read drv bytes_to_read d = (Result_of_error (filesystem_error_of r), buffer, d')"
    by (simp add: File_read_def)
  have writes: "driver_write drv bytes bytes_to_write d = (r, written, d') \<and> r \<noteq> FR_OK drv \<longrightarrow>
      File_write drv bytes bytes_to_write d = (Result_of_error (filesystem_error_of r), d')"
    by (simp add: File_write_def)
  have seeks: "driver_seek drv new_offset d = (r, offset, d') \<and> r \<noteq> FR_OK drv \<longrightarrow>
      File_seek drv new_offset d = (Result_of_error (filesystem_error_of r), d')"
    by (simp add: File_seek_def)
  have lines: "driver_write drv (s @ terminator) (of_nat (length (s @ terminator))) d
        = (r, written, d') \<and> r \<noteq> FR_OK drv \<longrightarrow>
      File_write_line drv terminator s d = (Some (filesystem_error_of r), d')"
    by (simp add: File_write_line_def File_write_def is_error_def Result_error_def
        Result_of_error_def)
  have syncs: "driver_sync drv d = (r, d') \<and> r \<noteq> FR_OK drv \<longrightarrow>
      File_sync drv d = (Some (filesystem_error_of r), d')"
    by (simp add: File_sync_def)
  have carried: "code (filesystem_error_of r) = r"
    by (simp add: code_def filesystem_error_of_def)
  have plain: "\<nexists>v. type_of_value v = declared_return_type op_space \<and> reported_error v \<noteq> None"
    "\<nexists>v. type_of_value v = declared_return_type op_next_filename_stem_matching_pattern
          \<and> reported_error v \<noteq> None"
    using plain_value_reports_nothing by auto
  from opens modes reads writes seeks lines syncs carried plain
    error_Result_reports [of e] Result_types [of opn] invalid_path_is_end [of p wild h]
  show ?thesis by (intro conjI)
qed

text \<open>
  A driver whose every call fails: \<^verbatim>\<open>open\<close> reports the status code 4 of the
  open call, \<^verbatim>\<open>read\<close> the code 1, and \<^verbatim>\<open>write_line\<close> the code 7 of the
  write beneath it.
\<close>

theorem File_operations_surface_failure_witness:
  "File_open \<lparr>FR_OK = 0, driver_open = (\<lambda>f m d. (4, d)), driver_read = (\<lambda>n d. (1, [], d)),
       driver_write = (\<lambda>b n d. (7, 0, d)), driver_seek = (\<lambda>n d. (9, 0, d)),
       driver_sync = (\<lambda>d. (1, d))\<rparr> (u16string ''X'') ()
     = (Some (filesystem_error_of 4), ())
   \<and> File_read \<lparr>FR_OK = 0, driver_open = (\<lambda>f m d. (4, d)), driver_read = (\<lambda>n d. (1, [], d)),
       driver_write = (\<lambda>b n d. (7, 0, d)), driver_seek = (\<lambda>n d. (9, 0, d)),
       driver_sync = (\<lambda>d. (1, d))\<rparr> 16 ()
     = (Result_of_error (filesystem_error_of 1), [], ())
   \<and> File_write_line \<lparr>FR_OK = 0, driver_open = (\<lambda>f m d. (4, d)),
       driver_read = (\<lambda>n d. (1, [], d)), driver_write = (\<lambda>b n d. (7, 0, d)),
       driver_seek = (\<lambda>n d. (9, 0, d)), driver_sync = (\<lambda>d. (1, d))\<rparr> [10] [72, 105] ()
     = (Some (filesystem_error_of 7), ())
   \<and> code (filesystem_error_of 7) = 7"
proof -
  let ?drv = "\<lparr>FR_OK = 0, driver_open = (\<lambda>f m d. (4, d)), driver_read = (\<lambda>n d. (1, [], d)),
       driver_write = (\<lambda>b n d. (7, 0, d)), driver_seek = (\<lambda>n d. (9, 0, d)),
       driver_sync = (\<lambda>d. (1, d))\<rparr> :: unit driver"
  have o: "driver_open ?drv (u16string ''X'') mode_open () = (4, ()) \<and> 4 \<noteq> FR_OK ?drv"
    by simp
  have r: "driver_read ?drv 16 () = (1, [], ()) \<and> 1 \<noteq> FR_OK ?drv"
    by simp
  have w: "driver_write ?drv ([72, 105] @ [10]) (of_nat (length ([72, 105] @ [10::u8]))) ()
      = (7, 0, ()) \<and> 7 \<noteq> FR_OK ?drv"
    by simp
  from File_operations_surface_failure
    [where drv = ?drv and filename = "u16string ''X''" and mode = mode_open and d = "()"
       and r = 4 and d' = "()"] o
  have a: "File_open ?drv (u16string ''X'') () = (Some (filesystem_error_of 4), ())"
    by simp
  from File_operations_surface_failure
    [where drv = ?drv and bytes_to_read = 16 and d = "()" and r = 1 and d' = "()"
       and buffer = "[]"] r
  have b: "File_read ?drv 16 () = (Result_of_error (filesystem_error_of 1), [], ())"
    by simp
  from File_operations_surface_failure
    [where drv = ?drv and s = "[72, 105]" and terminator = "[10]" and d = "()" and r = 7
       and d' = "()" and written = 0] w
  have c: "File_write_line ?drv [10] [72, 105] () = (Some (filesystem_error_of 7), ())"
    and "code (filesystem_error_of 7) = 7"
    by simp_all
  with a b show ?thesis by simp
qed

text \<open>
  C6 as stated fails at \<^verbatim>\<open>space\<close> and at the filename generator, which return
  neither a Result nor any value that reports an error, and at the directory iterator,
  which gives the same end state for an invalid path as for an empty directory.
\<close>

theorem space_reports_no_error_counterexample:
  "\<not> is_Result_type (declared_return_type op_space)
   \<and> (\<nexists>v. type_of_value v = declared_return_type op_space \<and> reported_error v \<noteq> None)
   \<and> \<not> is_Result_type (declared_return_type op_next_filename_stem_matching_pattern)
   \<and> (\<nexists>v. type_of_value v = declared_return_type op_next_filename_stem_matching_pattern
          \<and> reported_error v \<noteq> None)
   \<and> directory_iterator_open 0 None (\<lambda>name. True) Map.empty
       = directory_iterator_open 0 (Some []) (\<lambda>name. True) Map.empty"
  using plain_value_reports_nothing
  by (auto simp add: is_Result_type_def directory_iterator_open_def)

subsection \<open>A File is neither copied nor moved\<close>

text \<open>
  C9, as amended. The only way to make a File is the default constructor: a File can
  be constructed neither from an lvalue File (a copy) nor from an rvalue File (a move),
  and it can be neither copy-assigned nor move-assigned. No move operation is declared
  implicitly, because the class declares its copy operations and its destructor.
\<close>

theorem File_neither_copied_nor_moved:
  "constructible File_declares k = (k = from_nothing)
   \<and> \<not> copy_assignable File_declares
   \<and> \<not> move_assignable File_declares
   \<and> \<not> implicit_move File_declares"
  by (cases k)
     (simp_all add: constructible_def copy_constructible_def copy_assignable_def
        move_constructible_def move_assignable_def implicit_move_def user_declared_def)

text \<open>
  C9 as stated fails at the move: the header declares no move constructor, the deleted
  copy constructor is the only candidate for an rvalue, and so a File cannot be moved.
\<close>

theorem File_move_counterexample:
  "File_declares move_constructor = not_declared
   \<and> File_declares copy_constructor = deleted
   \<and> \<not> constructible File_declares from_rvalue
   \<and> \<not> move_assignable File_declares"
  by (simp add: constructible_def copy_constructible_def copy_assignable_def
      move_constructible_def move_assignable_def implicit_move_def user_declared_def)

end
